theory Spec2Isabelle
  imports Complex_Main
begin

section \<open>Curve Control: coordinator and data collector\<close>

text \<open>
  A shallow embedding of \<^verbatim>\<open>custom_components/curve_control/__init__.py\<close> (class
  \<^verbatim>\<open>CurveControlCoordinator\<close>) and \<^verbatim>\<open>data_collector.py\<close> (class
  \<^verbatim>\<open>DataCollector\<close>).

  Conventions of the model:
  \<^item> Python numbers (int and float) that take part in temperature and time arithmetic are
    read as exact reals; rounding of IEEE doubles is not modelled.
  \<^item> Values that arrive as JSON (service-call data, HTTP bodies) are values of \<open>jval\<close>;
    Python's \<^verbatim>\<open>None\<close> is \<open>JNull\<close>.
  \<^item> Strings are byte strings; digits are the ASCII digits.
  \<^item> Every \<^verbatim>\<open>await\<close> on the network is answered by a value supplied from outside
    (a reply datatype), so that each way the call can end is a branch of the model.
  \<^item> An exception that leaves a method is part of its result; the object state is returned
    next to it, since Python keeps the assignments made before the raise.
\<close>

subsection \<open>JSON values and Python exceptions\<close>

datatype jval =
    JNull
  | JBool bool
  | JNum real
  | JStr string
  | JList "jval list"
  | JDict "(string \<times> jval) list"

datatype exn =
    ClientError
  | TimeoutError
  | ValueError
  | AttributeError
  | TypeError
  | KeyError
  | IndexError

text \<open>\<^verbatim>\<open>UpdateFailed\<close> of the update-coordinator framework, carrying its cause.\<close>

datatype failure = UpdateFailed exn

text \<open>Python truthiness (\<^verbatim>\<open>if x:\<close>, \<^verbatim>\<open>not x\<close>).\<close>

fun truthy :: "jval \<Rightarrow> bool" where
  "truthy JNull = False"
| "truthy (JBool b) = b"
| "truthy (JNum x) = (x \<noteq> 0)"
| "truthy (JStr s) = (s \<noteq> [])"
| "truthy (JList xs) = (xs \<noteq> [])"
| "truthy (JDict kvs) = (kvs \<noteq> [])"

text \<open>\<^verbatim>\<open>isinstance(x, dict)\<close>.\<close>

fun is_dict :: "jval \<Rightarrow> bool" where
  "is_dict (JDict kvs) = True"
| "is_dict _ = False"

text \<open>\<^verbatim>\<open>d.get(k, default)\<close> on the entries of a dict.\<close>

definition dict_get :: "(string \<times> jval) list \<Rightarrow> string \<Rightarrow> jval \<Rightarrow> jval" where
  "dict_get kvs k dflt = (case map_of kvs k of Some v \<Rightarrow> v | None \<Rightarrow> dflt)"

text \<open>\<^verbatim>\<open>len(x)\<close>: defined on strings, lists and mappings.\<close>

fun py_len :: "jval \<Rightarrow> exn + nat" where
  "py_len (JStr s) = Inr (length s)"
| "py_len (JList xs) = Inr (length xs)"
| "py_len (JDict kvs) = Inr (length kvs)"
| "py_len _ = Inl TypeError"

text \<open>The value has a length, so \<^verbatim>\<open>len(x)\<close> does not raise.\<close>

definition has_len :: "jval \<Rightarrow> bool" where
  "has_len v = (case py_len v of Inl err \<Rightarrow> False | Inr n \<Rightarrow> True)"

subsection \<open>Constants (const.py)\<close>

definition INTERVALS_PER_DAY :: nat where
  "INTERVALS_PER_DAY = 48"

definition DEADBAND_OFFSET :: real where
  "DEADBAND_OFFSET = 14 / 10"

definition HEATING_RATE_30MIN :: real where
  "HEATING_RATE_30MIN = 125 / 100"

definition COOLING_RATE_30MIN :: real where
  "COOLING_RATE_30MIN = - (19335 / 10000)"

subsection \<open>Parsing a time of day: \<^verbatim>\<open>datetime.strptime(s, "%H:%M")\<close>\<close>

definition digit_val :: "char \<Rightarrow> nat option" where
  "digit_val c =
     (let n = (of_char c :: nat) in if 48 \<le> n \<and> n \<le> 57 then Some (n - 48) else None)"

text \<open>
  The hour directive \<^verbatim>\<open>%H\<close> is the regular expression
  \<^verbatim>\<open>2[0-3]|[0-1]\d|\d\<close>, followed here by the literal colon: two digits that
  form an hour below 24, or else a single digit.
\<close>

definition parse_hour :: "string \<Rightarrow> (nat \<times> string) option" where
  "parse_hour s =
     (case s of
        a # b # rest \<Rightarrow>
          (case digit_val a of
             None \<Rightarrow> None
           | Some x \<Rightarrow>
               (case digit_val b of
                  Some y \<Rightarrow>
                    (case rest of
                       c # rest' \<Rightarrow>
                         if ((x = 2 \<and> y \<le> 3) \<or> x \<le> 1) \<and> c = CHR '':''
                         then Some (10 * x + y, rest') else None
                     | [] \<Rightarrow> None)
                | None \<Rightarrow> if b = CHR '':'' then Some (x, rest) else None))
      | _ \<Rightarrow> None)"

text \<open>
  The minute directive \<^verbatim>\<open>%M\<close> is \<^verbatim>\<open>[0-5]\d|\d\<close>; strptime raises
  ValueError when text remains after the match, so the minute is the whole rest.
\<close>

definition parse_minute :: "string \<Rightarrow> nat option" where
  "parse_minute s =
     (case s of
        [a] \<Rightarrow> digit_val a
      | [a, b] \<Rightarrow>
          (case (digit_val a, digit_val b) of
             (Some x, Some y) \<Rightarrow> if x \<le> 5 then Some (10 * x + y) else None
           | _ \<Rightarrow> None)
      | _ \<Rightarrow> None)"

text \<open>\<open>None\<close> stands for the ValueError of strptime.\<close>

definition strptime_HM :: "string \<Rightarrow> (nat \<times> nat) option" where
  "strptime_HM s =
     (case parse_hour s of
        None \<Rightarrow> None
      | Some (h, rest) \<Rightarrow>
          (case parse_minute rest of None \<Rightarrow> None | Some m \<Rightarrow> Some (h, m)))"

subsection \<open>Preferences and the schedule builder\<close>

text \<open>\<^verbatim>\<open>self.config\<close>, the dict built in \<^verbatim>\<open>__init__\<close>.\<close>

record config =
  anonymousId :: "string option"
  homeSize :: real
  homeTemperature :: real
  location :: int
  timeAway :: string
  timeHome :: string
  savingsLevel :: int

record temperature_schedule =
  highTemperatures :: "real list"
  lowTemperatures :: "real list"
  intervalMinutes :: nat
  totalIntervals :: nat

text \<open>\<^verbatim>\<open>_time_to_30min_index\<close>: the ValueError of strptime is caught and becomes 16.\<close>

definition time_to_30min_index :: "string \<Rightarrow> nat" where
  "time_to_30min_index time_str =
     (case strptime_HM (take 5 time_str) of
        Some (hour, minute) \<Rightarrow> (hour * 60 + minute) div 30
      | None \<Rightarrow> 16)"

text \<open>\<^verbatim>\<open>_calculate_savings_offset\<close>: \<^verbatim>\<open>{1: 2, 2: 6, 3: 12}.get(level, 6)\<close>.\<close>

definition calculate_savings_offset :: "int \<Rightarrow> real" where
  "calculate_savings_offset savings_level =
     (if savings_level = 1 then 2
      else if savings_level = 2 then 6
      else if savings_level = 3 then 12
      else 6)"

text \<open>One pass of the loop body of \<^verbatim>\<open>_build_30min_temperature_schedule\<close>.\<close>

definition schedule_step ::
  "real \<Rightarrow> real \<Rightarrow> nat \<Rightarrow> nat \<Rightarrow> nat \<Rightarrow> real list \<times> real list \<Rightarrow> real list \<times> real list" where
  "schedule_step base_temp savings_offset away_interval home_interval interval acc =
     (case acc of (high_temps, low_temps) \<Rightarrow>
        if away_interval \<le> interval \<and> interval \<le> home_interval
        then (high_temps @ [base_temp + savings_offset + DEADBAND_OFFSET],
              low_temps @ [base_temp - savings_offset - DEADBAND_OFFSET])
        else (high_temps @ [base_temp + DEADBAND_OFFSET],
              low_temps @ [base_temp - DEADBAND_OFFSET]))"

definition build_30min_temperature_schedule :: "config \<Rightarrow> temperature_schedule" where
  "build_30min_temperature_schedule cfg =
     (let base_temp = homeTemperature cfg;
          away_interval = time_to_30min_index (timeAway cfg);
          home_interval = time_to_30min_index (timeHome cfg);
          savings_offset = calculate_savings_offset (savingsLevel cfg);
          temps = fold (schedule_step base_temp savings_offset away_interval home_interval)
                    [0 ..< INTERVALS_PER_DAY] ([], [])
      in \<lparr> highTemperatures = fst temps,
           lowTemperatures = snd temps,
           intervalMinutes = 30,
           totalIntervals = INTERVALS_PER_DAY \<rparr>)"

text \<open>The schedule as the JSON value that is placed in the optimizer request.\<close>

definition schedule_json :: "temperature_schedule \<Rightarrow> jval" where
  "schedule_json s =
     JDict [(''highTemperatures'', JList (map JNum (highTemperatures s))),
            (''lowTemperatures'', JList (map JNum (lowTemperatures s))),
            (''intervalMinutes'', JNum (real (intervalMinutes s))),
            (''totalIntervals'', JNum (real (totalIntervals s)))]"

subsection \<open>The coordinator\<close>

text \<open>
  The attributes of \<^verbatim>\<open>CurveControlCoordinator\<close> that the modelled methods read or
  write. Attributes that start as \<^verbatim>\<open>None\<close> and later hold JSON are \<open>jval\<close>s.
  Times are seconds (\<^verbatim>\<open>time.time()\<close>), dates are day numbers.
\<close>

record coordinator =
  user_id :: "string option"
  auth_token :: "string option"
  config :: config
  schedule_data :: jval
  optimization_results :: jval
  heat_up_rate :: real
  cool_down_rate :: real
  backend_heating_rate :: "real option"
  backend_cooling_rate :: "real option"
  backend_natural_rate :: "real option"
  thermal_rates_last_fetched :: "real option"
  last_update_time :: real
  update_debounce_seconds :: real
  daily_schedule :: jval
  schedule_date :: "int option"
  custom_temperature_schedule :: jval
  optimization_mode :: string

text \<open>
  \<^verbatim>\<open>__init__\<close>, from the fields of the config entry; the two times are cut to five
  characters (\<^verbatim>\<open>str(...)[:5]\<close>).
\<close>

definition init_coordinator ::
  "string option \<Rightarrow> string option \<Rightarrow> real \<Rightarrow> real \<Rightarrow> int \<Rightarrow> string \<Rightarrow> string \<Rightarrow> int \<Rightarrow> coordinator" where
  "init_coordinator uid token home_size target_temp loc time_away time_home savings_level =
     \<lparr> user_id = uid,
       auth_token = token,
       config = \<lparr> anonymousId = uid,
                  homeSize = home_size,
                  homeTemperature = target_temp,
                  location = loc,
                  timeAway = take 5 time_away,
                  timeHome = take 5 time_home,
                  savingsLevel = savings_level \<rparr>,
       schedule_data = JNull,
       optimization_results = JNull,
       heat_up_rate = HEATING_RATE_30MIN,
       cool_down_rate = COOLING_RATE_30MIN,
       backend_heating_rate = None,
       backend_cooling_rate = None,
       backend_natural_rate = None,
       thermal_rates_last_fetched = None,
       last_update_time = 0,
       update_debounce_seconds = 2,
       daily_schedule = JNull,
       schedule_date = None,
       custom_temperature_schedule = JNull,
       optimization_mode = ''cool'' \<rparr>"

text \<open>\<^verbatim>\<open>not x\<close> for an optional string: \<^verbatim>\<open>None\<close> and the empty string are falsy.\<close>

definition str_truthy :: "string option \<Rightarrow> bool" where
  "str_truthy s = (case s of None \<Rightarrow> False | Some t \<Rightarrow> t \<noteq> [])"

subsubsection \<open>Thermal rates\<close>

text \<open>
  The ways the \<^verbatim>\<open>calculate-rates\<close> call can end. \<open>RatesRaised\<close> covers every
  exception raised before the first assignment (transport failure, timeout, a body that is
  not JSON or not of the expected shape); \<open>RatesReply status success rates\<close> is a JSON
  mapping with the truth value of its \<^verbatim>\<open>success\<close> field and, when
  \<^verbatim>\<open>thermal_rates\<close> is a non-empty mapping, its three rate fields.
\<close>

datatype rates_reply =
    RatesRaised
  | RatesReply int bool "(real option \<times> real option \<times> real option) option"

text \<open>
  \<^verbatim>\<open>_async_fetch_thermal_rates_from_backend\<close>. It never raises: both handlers
  only log. The log line after the assignments cannot undo them.
\<close>

definition async_fetch_thermal_rates_from_backend ::
  "rates_reply \<Rightarrow> real \<Rightarrow> coordinator \<Rightarrow> coordinator" where
  "async_fetch_thermal_rates_from_backend reply now st =
     (if \<not> str_truthy (user_id st) \<or> \<not> str_truthy (auth_token st) then st
      else
        (case reply of
           RatesRaised \<Rightarrow> st
         | RatesReply status success rates \<Rightarrow>
             if status = 200 then
               (case rates of
                  None \<Rightarrow> st
                | Some (heating, cooling, natural) \<Rightarrow>
                    if success then
                      st\<lparr> backend_heating_rate := heating,
                          backend_cooling_rate := cooling,
                          backend_natural_rate := natural,
                          thermal_rates_last_fetched := Some now,
                          heat_up_rate := (case heating of Some r \<Rightarrow> r | None \<Rightarrow> heat_up_rate st),
                          cool_down_rate := (case cooling of Some r \<Rightarrow> r | None \<Rightarrow> cool_down_rate st) \<rparr>
                    else st)
             else st))"

subsubsection \<open>The optimizer call\<close>

text \<open>The request body of \<^verbatim>\<open>POST /generate_schedule\<close>.\<close>

record request_data =
  req_config :: config
  req_temperatureSchedule :: jval
  req_heatUpRate :: real
  req_coolDownRate :: real
  req_mode :: string
  req_naturalRate :: "real option"

text \<open>
  The ways the optimizer call can end: the post raises a client error, the 30 second
  timeout fires, or a response arrives with a status and a body; the body is \<open>Inl err\<close>
  when \<^verbatim>\<open>response.json()\<close> raises \<open>err\<close> (a \<^verbatim>\<open>ClientError\<close> for a
  content type that is not JSON, a \<^verbatim>\<open>ValueError\<close> for text that does not decode).
\<close>

datatype http_reply =
    TransportError
  | Timeout
  | Reply int "exn + jval"

text \<open>
  \<^verbatim>\<open>response.raise_for_status()\<close> of aiohttp raises \<^verbatim>\<open>ClientResponseError\<close>
  (a \<^verbatim>\<open>ClientError\<close>) exactly when \<^verbatim>\<open>response.ok\<close> is false, and
  \<^verbatim>\<open>ok\<close> is \<^verbatim>\<open>400 > self.status\<close>.
\<close>

definition raise_for_status :: "int \<Rightarrow> exn option" where
  "raise_for_status status = (if 400 > status then None else Some ClientError)"

text \<open>What the world supplies to one run of \<^verbatim>\<open>_async_update_data\<close>.\<close>

record env =
  rates :: rates_reply
  optimizer :: "request_data \<Rightarrow> http_reply"
  clock :: real
  today :: int

text \<open>Lines 354 to 378: the envelope (custom or basic) and the request.\<close>

definition select_schedule :: "coordinator \<Rightarrow> jval" where
  "select_schedule st =
     (if truthy (custom_temperature_schedule st) then custom_temperature_schedule st
      else schedule_json (build_30min_temperature_schedule (config st)))"

definition build_request :: "coordinator \<Rightarrow> request_data" where
  "build_request st =
     \<lparr> req_config = config st,
       req_temperatureSchedule = select_schedule st,
       req_heatUpRate = heat_up_rate st,
       req_coolDownRate = cool_down_rate st,
       req_mode = optimization_mode st,
       req_naturalRate = backend_natural_rate st \<rparr>"

text \<open>
  \<^verbatim>\<open>_async_update_data\<close>. Both handlers turn the exception into
  \<^verbatim>\<open>UpdateFailed\<close>. The result is the returned mapping or the failure, together
  with the object state afterwards. The read of the thermostat entity at the start only
  sets a local variable that is never used, and is left out. The log line after the four
  assignments computes \<^verbatim>\<open>len(self.schedule_data)\<close> and
  \<^verbatim>\<open>len(self._daily_schedule)\<close> inside the \<^verbatim>\<open>try\<close>: a TypeError there
  becomes \<^verbatim>\<open>UpdateFailed\<close> too, with the assignments already made.
\<close>

definition async_update_data :: "env \<Rightarrow> coordinator \<Rightarrow> (failure + jval) \<times> coordinator" where
  "async_update_data e st =
     (let st1 = async_fetch_thermal_rates_from_backend (rates e) (clock e) st;
          request = build_request st1
      in case optimizer e request of
           TransportError \<Rightarrow> (Inl (UpdateFailed ClientError), st1)
         | Timeout \<Rightarrow> (Inl (UpdateFailed TimeoutError), st1)
         | Reply status body \<Rightarrow>
             (case raise_for_status status of
                Some err \<Rightarrow> (Inl (UpdateFailed err), st1)
              | None \<Rightarrow>
                  (case body of
                     Inl err \<Rightarrow> (Inl (UpdateFailed err), st1)
                   | Inr data \<Rightarrow>
                       (case data of
                          JDict kvs \<Rightarrow>
                            (let st2 = st1\<lparr> optimization_results := data,
                                            schedule_data := dict_get kvs ''HourlyTemperature'' (JList []),
                                            daily_schedule := dict_get kvs ''bestTempActual'' (JList []),
                                            schedule_date := Some (today e) \<rparr>
                             in case py_len (schedule_data st2) of
                                  Inl err \<Rightarrow> (Inl (UpdateFailed err), st2)
                                | Inr hourly \<Rightarrow>
                                    (case py_len (daily_schedule st2) of
                                       Inl err \<Rightarrow> (Inl (UpdateFailed err), st2)
                                     | Inr daily \<Rightarrow> (Inr data, st2)))
                        | _ \<Rightarrow> (Inl (UpdateFailed ValueError), st1)))))"

subsubsection \<open>Updating the preferences\<close>

text \<open>The service-call data: each recognised key is present (\<open>Some\<close>) or absent.\<close>

record patch =
  p_homeSize :: "real option"
  p_homeTemperature :: "real option"
  p_location :: "int option"
  p_savingsLevel :: "int option"
  p_timeAway :: "string option"
  p_timeHome :: "string option"
  p_optimizationMode :: "string option"
  p_temperatureSchedule :: "jval option"

text \<open>
  The arguments of the three debug lines after a custom schedule is stored are computed
  before logging: \<^verbatim>\<open>sched.get(key, [])[:8]\<close> and \<^verbatim>\<open>len(sched.get(key, []))\<close>.
  \<^verbatim>\<open>.get\<close> exists on a mapping only; a slice exists on lists and strings only.
\<close>

fun slice_check :: "jval \<Rightarrow> exn option" where
  "slice_check (JList xs) = None"
| "slice_check (JStr s) = None"
| "slice_check _ = Some TypeError"

definition log_custom_schedule :: "jval \<Rightarrow> exn option" where
  "log_custom_schedule sched =
     (case sched of
        JDict kvs \<Rightarrow>
          (case slice_check (dict_get kvs ''highTemperatures'' (JList [])) of
             Some err \<Rightarrow> Some err
           | None \<Rightarrow> slice_check (dict_get kvs ''lowTemperatures'' (JList [])))
      | _ \<Rightarrow> Some AttributeError)"

text \<open>Lines 431 to 447: the recognised keys are merged into the preferences.\<close>

definition merge_config :: "patch \<Rightarrow> config \<Rightarrow> config" where
  "merge_config p cfg =
     cfg\<lparr> homeSize := (case p_homeSize p of Some v \<Rightarrow> v | None \<Rightarrow> homeSize cfg),
          homeTemperature := (case p_homeTemperature p of Some v \<Rightarrow> v | None \<Rightarrow> homeTemperature cfg),
          location := (case p_location p of Some v \<Rightarrow> v | None \<Rightarrow> location cfg),
          savingsLevel := (case p_savingsLevel p of Some v \<Rightarrow> v | None \<Rightarrow> savingsLevel cfg),
          timeAway := (case p_timeAway p of Some v \<Rightarrow> take 5 v | None \<Rightarrow> timeAway cfg),
          timeHome := (case p_timeHome p of Some v \<Rightarrow> take 5 v | None \<Rightarrow> timeHome cfg) \<rparr>"

text \<open>
  How a call of \<^verbatim>\<open>async_update_schedule\<close> ends before the refresh is requested:
  dropped by the debounce gate, left by an exception, or ready to refresh.
\<close>

datatype outcome =
    Ignored
  | Raised exn
  | Proceeded

text \<open>
  \<^verbatim>\<open>async_update_schedule\<close>, lines 416 to 461, at clock reading \<open>current_time\<close>.
  The refresh request and the optional save that follow are made only after \<open>Proceeded\<close>.
\<close>

definition async_update_schedule :: "real \<Rightarrow> patch \<Rightarrow> coordinator \<Rightarrow> outcome \<times> coordinator" where
  "async_update_schedule current_time data st =
     (let time_since_last_update = current_time - last_update_time st
      in if time_since_last_update < update_debounce_seconds st then (Ignored, st)
         else
           (let st1 = st\<lparr> last_update_time := current_time \<rparr>;
                st2 = st1\<lparr> config := merge_config data (config st1) \<rparr>;
                st3 = (case p_optimizationMode data of
                         Some m \<Rightarrow> st2\<lparr> optimization_mode := m \<rparr>
                       | None \<Rightarrow> st2)
            in case p_temperatureSchedule data of
                 Some sched \<Rightarrow>
                   (let st4 = st3\<lparr> custom_temperature_schedule := sched \<rparr>
                    in case log_custom_schedule sched of
                         Some err \<Rightarrow> (Raised err, st4)
                       | None \<Rightarrow> (Proceeded, st4))
               | None \<Rightarrow> (Proceeded, st3\<lparr> custom_temperature_schedule := JNull \<rparr>)))"

subsubsection \<open>Schedule bounds\<close>

text \<open>
  \<^verbatim>\<open>x[i]\<close> for a non-negative index: an element of a list, a one-character
  string of a string, IndexError beyond the end; a JSON mapping has string keys only, so
  an integer key is a KeyError.
\<close>

fun py_index :: "jval \<Rightarrow> nat \<Rightarrow> exn + jval" where
  "py_index (JList xs) i = (if i < length xs then Inr (xs ! i) else Inl IndexError)"
| "py_index (JStr s) i = (if i < length s then Inr (JStr [s ! i]) else Inl IndexError)"
| "py_index (JDict kvs) i = Inl KeyError"
| "py_index _ i = Inl TypeError"

text \<open>\<^verbatim>\<open>get_schedule_bounds\<close>; \<open>Inr None\<close> is the returned \<^verbatim>\<open>None\<close>.\<close>

definition get_schedule_bounds :: "coordinator \<Rightarrow> exn + (jval \<times> jval) option" where
  "get_schedule_bounds st =
     (if \<not> truthy (schedule_data st) then Inr None
      else
        (case py_len (schedule_data st) of
           Inl err \<Rightarrow> Inl err
         | Inr n \<Rightarrow>
             if n < 3 then Inr None
             else
               (case py_index (schedule_data st) 1 of
                  Inl err \<Rightarrow> Inl err
                | Inr high \<Rightarrow>
                    (case py_index (schedule_data st) 2 of
                       Inl err \<Rightarrow> Inl err
                     | Inr low \<Rightarrow> Inr (Some (high, low))))))"

subsection \<open>The data collector\<close>

text \<open>One buffered sample, as assembled at the end of \<^verbatim>\<open>_collect_reading\<close>.\<close>

record reading =
  timestamp :: string
  indoor_temp :: real
  indoor_humidity :: "real option"
  hvac_mode :: "string option"
  hvac_state :: string
  fan_mode :: jval
  fan_state :: jval
  target_temp :: real
  reading_mode :: string

text \<open>One entry of \<^verbatim>\<open>user_inputs_today\<close>, as appended by \<^verbatim>\<open>log_user_input\<close>.\<close>

record user_input =
  input_timestamp :: string
  service :: string
  input_data :: jval

record collector =
  collector_user_id :: string
  pending_readings :: "reading list"
  user_inputs_today :: "user_input list"

definition init_collector :: "string \<Rightarrow> collector" where
  "init_collector uid =
     \<lparr> collector_user_id = uid, pending_readings = [], user_inputs_today = [] \<rparr>"

text \<open>Line 169: \<^verbatim>\<open>self.pending_readings.append(reading)\<close>.\<close>

definition append_reading :: "reading \<Rightarrow> collector \<Rightarrow> collector" where
  "append_reading r c = c\<lparr> pending_readings := pending_readings c @ [r] \<rparr>"

text \<open>\<^verbatim>\<open>log_user_input\<close>.\<close>

definition log_user_input :: "user_input \<Rightarrow> collector \<Rightarrow> collector" where
  "log_user_input u c = c\<lparr> user_inputs_today := user_inputs_today c @ [u] \<rparr>"

text \<open>
  The requests the collector issues, and the ways a post can end: it raises (transport
  error, timeout), or a response arrives with a status and a body (\<open>None\<close> when
  \<^verbatim>\<open>response.json()\<close> raises).
\<close>

record sensor_payload =
  sp_user_id :: string
  sp_readings :: "reading list"

record summary_payload =
  sm_user_id :: string
  sm_date :: int
  sm_inputs_today :: nat
  sm_services_used :: "user_input list"
  sm_weather_forecast :: jval
  sm_optimization_mode :: string

datatype request =
    SensorData sensor_payload
  | DailySummary summary_payload

datatype post_reply =
    PostRaised
  | PostReply int "jval option"

text \<open>
  \<^verbatim>\<open>_send_sensor_batch\<close>. It cannot raise: the handler catches every exception.
  The result is the list of requests issued (none or one) and the state afterwards.
\<close>

definition send_sensor_batch ::
  "(sensor_payload \<Rightarrow> post_reply) \<Rightarrow> collector \<Rightarrow> request list \<times> collector" where
  "send_sensor_batch endpoint c =
     (if pending_readings c = [] then ([], c)
      else
        (let payload = \<lparr> sp_user_id = collector_user_id c, sp_readings = pending_readings c \<rparr>
         in case endpoint payload of
              PostRaised \<Rightarrow> ([SensorData payload], c)
            | PostReply status body \<Rightarrow>
                if status = 200 then ([SensorData payload], c\<lparr> pending_readings := [] \<rparr>)
                else ([SensorData payload], c)))"

text \<open>
  What the world supplies to one run of \<^verbatim>\<open>_send_daily_summary\<close>: the two
  endpoints, the weather block (\<open>None\<close> when reading the weather entity raises),
  yesterday's date and the coordinator's optimization mode.
\<close>

record summary_env =
  sensor_endpoint :: "sensor_payload \<Rightarrow> post_reply"
  summary_endpoint :: "summary_payload \<Rightarrow> post_reply"
  weather :: "jval option"
  yesterday :: int
  mode :: string

text \<open>
  \<^verbatim>\<open>_send_daily_summary\<close>. Inside the \<^verbatim>\<open>async with\<close> block both branches
  return, so control never reaches the statement after the block. The result is the
  requests issued, the returned value (\<open>None\<close> for Python's \<^verbatim>\<open>None\<close>) and the
  state afterwards.
\<close>

definition send_daily_summary ::
  "summary_env \<Rightarrow> collector \<Rightarrow> request list \<times> jval option \<times> collector" where
  "send_daily_summary e c =
     (let (sent, c1) = (if pending_readings c \<noteq> [] then send_sensor_batch (sensor_endpoint e) c
                        else ([], c))
      in case weather e of
           None \<Rightarrow> (sent, None, c1)
         | Some weather_forecast \<Rightarrow>
             (let payload = \<lparr> sm_user_id = collector_user_id c1,
                              sm_date = yesterday e,
                              sm_inputs_today = length (user_inputs_today c1),
                              sm_services_used = user_inputs_today c1,
                              sm_weather_forecast = weather_forecast,
                              sm_optimization_mode = mode e \<rparr>
              in case summary_endpoint e payload of
                   PostRaised \<Rightarrow> (sent @ [DailySummary payload], None, c1)
                 | PostReply status body \<Rightarrow>
                     if status = 200 then
                       (case body of
                          Some (JDict kvs) \<Rightarrow>
                            (sent @ [DailySummary payload],
                             Some (dict_get kvs ''thermal_rates'' (JDict [])), c1)
                        | _ \<Rightarrow> (sent @ [DailySummary payload], None, c1))
                     else (sent @ [DailySummary payload], None, c1)))"

subsection \<open>Well-formed times and failure predicates\<close>

text \<open>
  The text \<^verbatim>\<open>HH:MM\<close> of an hour and a minute: two decimal digits, a colon, two
  decimal digits. Used to state what the slot of a well-formed time is.
\<close>

definition digit_char :: "nat \<Rightarrow> char" where
  "digit_char d = ''0123456789'' ! d"

definition hhmm :: "nat \<Rightarrow> nat \<Rightarrow> string" where
  "hhmm h m =
     [digit_char (h div 10), digit_char (h mod 10), CHR '':'',
      digit_char (m div 10), digit_char (m mod 10)]"

text \<open>
  The optimizer call fails: the post raises, the timeout fires, the status makes
  \<^verbatim>\<open>raise_for_status\<close> raise, the body is not JSON, or it is not a mapping.
\<close>

definition optimizer_call_fails :: "http_reply \<Rightarrow> bool" where
  "optimizer_call_fails r =
     (case r of
        TransportError \<Rightarrow> True
      | Timeout \<Rightarrow> True
      | Reply status body \<Rightarrow>
          400 \<le> status \<or> (case body of Inl err \<Rightarrow> True | Inr d \<Rightarrow> \<not> is_dict d))"

text \<open>A post of the collector fails: it raises, or the status is not 200.\<close>

definition upload_failed :: "post_reply \<Rightarrow> bool" where
  "upload_failed r = (case r of PostRaised \<Rightarrow> True | PostReply status body \<Rightarrow> status \<noteq> 200)"

subsection \<open>Example data\<close>

text \<open>
  A freshly constructed coordinator (08:00 to 17:00 away, 72 degrees, savings level 2), the
  same coordinator after one successful optimization, and fixed replies of the services.
\<close>

definition example_coordinator :: coordinator where
  "example_coordinator =
     init_coordinator (Some ''user-1'') (Some ''token'') 2000 72 1 ''08:00'' ''17:00'' 2"

definition example_results :: jval where
  "example_results =
     JDict [(''HourlyTemperature'', JList [JNum 72, JNum 73]),
            (''bestTempActual'', JList [JNum 71, JNum 74])]"

definition stored_coordinator :: coordinator where
  "stored_coordinator =
     example_coordinator\<lparr> schedule_data := JList [JNum 72, JNum 73],
                          optimization_results := example_results,
                          daily_schedule := JList [JNum 71, JNum 74],
                          schedule_date := Some 19999 \<rparr>"

definition example_env :: "http_reply \<Rightarrow> env" where
  "example_env r = \<lparr> rates = RatesRaised, optimizer = (\<lambda>request. r), clock = 1000, today = 20000 \<rparr>"

definition empty_patch :: patch where
  "empty_patch =
     \<lparr> p_homeSize = None, p_homeTemperature = None, p_location = None, p_savingsLevel = None,
       p_timeAway = None, p_timeHome = None, p_optimizationMode = None,
       p_temperatureSchedule = None \<rparr>"

definition example_reading :: "string \<Rightarrow> reading" where
  "example_reading ts =
     \<lparr> timestamp = ts, indoor_temp = 71, indoor_humidity = None, hvac_mode = Some ''cool'',
       hvac_state = ''OFF'', fan_mode = JNull, fan_state = JNull, target_temp = 72,
       reading_mode = ''cool'' \<rparr>"

definition example_input :: user_input where
  "example_input =
     \<lparr> input_timestamp = ''2025-01-01T10:00:00'', service = ''update_schedule'',
       input_data = JNull \<rparr>"

definition example_summary_env :: "post_reply \<Rightarrow> post_reply \<Rightarrow> summary_env" where
  "example_summary_env sensor_reply summary_reply =
     \<lparr> sensor_endpoint = (\<lambda>payload. sensor_reply),
       summary_endpoint = (\<lambda>payload. summary_reply),
       weather = Some JNull, yesterday = 19999, mode = ''cool'' \<rparr>"

section \<open>Properties\<close>

subsection \<open>Supporting lemmas\<close>

text \<open>The loop of the schedule builder computes two maps over the slot numbers.\<close>

lemma fold_schedule_step:
  "fold (schedule_step b off a h) xs (hs, ls) =
     (hs @ map (\<lambda>i. if a \<le> i \<and> i \<le> h then b + off + DEADBAND_OFFSET else b + DEADBAND_OFFSET) xs,
      ls @ map (\<lambda>i. if a \<le> i \<and> i \<le> h then b - off - DEADBAND_OFFSET else b - DEADBAND_OFFSET) xs)"
  by (induction xs arbitrary: hs ls) (simp_all add: schedule_step_def)

lemma highTemperatures_build:
  "highTemperatures (build_30min_temperature_schedule cfg) =
     map (\<lambda>i. if time_to_30min_index (timeAway cfg) \<le> i \<and> i \<le> time_to_30min_index (timeHome cfg)
               then homeTemperature cfg + calculate_savings_offset (savingsLevel cfg) + DEADBAND_OFFSET
               else homeTemperature cfg + DEADBAND_OFFSET) [0 ..< INTERVALS_PER_DAY]"
  by (simp add: build_30min_temperature_schedule_def Let_def fold_schedule_step)

lemma lowTemperatures_build:
  "lowTemperatures (build_30min_temperature_schedule cfg) =
     map (\<lambda>i. if time_to_30min_index (timeAway cfg) \<le> i \<and> i \<le> time_to_30min_index (timeHome cfg)
               then homeTemperature cfg - calculate_savings_offset (savingsLevel cfg) - DEADBAND_OFFSET
               else homeTemperature cfg - DEADBAND_OFFSET) [0 ..< INTERVALS_PER_DAY]"
  by (simp add: build_30min_temperature_schedule_def Let_def fold_schedule_step)

lemma calculate_savings_offset_pos: "0 < calculate_savings_offset l"
  by (simp add: calculate_savings_offset_def)

lemma index_0800: "time_to_30min_index ''08:00'' = 16"
  by (simp add: time_to_30min_index_def strptime_HM_def parse_hour_def parse_minute_def digit_val_def)

lemma index_1700: "time_to_30min_index ''17:00'' = 34"
  by (simp add: time_to_30min_index_def strptime_HM_def parse_hour_def parse_minute_def digit_val_def)

text \<open>The slot of a parsed time is one of the 48 slots of the day.\<close>

lemma digit_val_le_9: "digit_val c = Some d \<Longrightarrow> d \<le> 9"
  by (auto simp add: digit_val_def Let_def split: if_splits)

lemma parse_hour_lt_24: "parse_hour s = Some (h, rest) \<Longrightarrow> h < 24"
  by (auto simp add: parse_hour_def split: list.splits option.splits if_splits
      dest!: digit_val_le_9)

lemma parse_minute_lt_60: "parse_minute s = Some m \<Longrightarrow> m < 60"
  by (auto simp add: parse_minute_def split: list.splits option.splits if_splits
      dest!: digit_val_le_9)

lemma strptime_HM_range: "strptime_HM s = Some (h, m) \<Longrightarrow> h < 24 \<and> m < 60"
  by (auto simp add: strptime_HM_def split: option.splits
      dest: parse_hour_lt_24 parse_minute_lt_60)

lemma time_to_30min_index_lt_48: "time_to_30min_index s < INTERVALS_PER_DAY"
proof (cases "strptime_HM (take 5 s)")
  case None
  then show ?thesis by (simp add: time_to_30min_index_def INTERVALS_PER_DAY_def)
next
  case (Some hm)
  obtain h m where hm: "hm = (h, m)" by (cases hm)
  with Some have "h < 24 \<and> m < 60" by (simp add: strptime_HM_range)
  then have "(h * 60 + m) div 30 < 48" by arith
  with Some hm show ?thesis by (simp add: time_to_30min_index_def INTERVALS_PER_DAY_def)
qed

text \<open>
  A well-formed \<^verbatim>\<open>HH:MM\<close> (with or without trailing seconds) has the slot
  \<open>(hour * 60 + minute) div 30\<close>; a string that does not parse has slot 16.
\<close>

lemma time_to_30min_index_HHMM:
  assumes "digit_val a = Some x" "digit_val b = Some y" "digit_val c = Some z" "digit_val d = Some w"
    and "10 * x + y < 24" and "z \<le> 5"
  shows "time_to_30min_index ([a, b, CHR '':'', c, d] @ rest)
           = ((10 * x + y) * 60 + (10 * z + w)) div 30"
proof -
  have "y \<le> 9" using assms(2) by (rule digit_val_le_9)
  then have "(x = 2 \<and> y \<le> 3) \<or> x \<le> 1" using assms(5) by arith
  then show ?thesis
    using assms(1-4,6)
    by (simp add: time_to_30min_index_def strptime_HM_def parse_hour_def parse_minute_def)
qed

lemma digit_val_digit_char:
  assumes "d < 10"
  shows "digit_val (digit_char d) = Some d"
proof -
  from assms have "d = 0 \<or> d = 1 \<or> d = 2 \<or> d = 3 \<or> d = 4 \<or> d = 5 \<or> d = 6 \<or> d = 7 \<or> d = 8 \<or> d = 9"
    by arith
  then show ?thesis
    by (elim disjE) (simp_all add: digit_val_def digit_char_def Let_def)
qed

text \<open>The slot of the text \<^verbatim>\<open>HH:MM\<close> of a time of day.\<close>

lemma time_to_30min_index_hhmm:
  assumes "h < 24" and "m < 60"
  shows "time_to_30min_index (hhmm h m) = (h * 60 + m) div 30"
proof -
  have digits: "h div 10 < 10" "h mod 10 < 10" "m div 10 < 10" "m mod 10 < 10"
    using assms by simp_all
  have bounds: "10 * (h div 10) + h mod 10 < 24" "m div 10 \<le> 5"
    using assms by simp_all
  have "time_to_30min_index (hhmm h m)
          = ((10 * (h div 10) + h mod 10) * 60 + (10 * (m div 10) + m mod 10)) div 30"
    using time_to_30min_index_HHMM
            [OF digit_val_digit_char [OF digits(1)] digit_val_digit_char [OF digits(2)]
                digit_val_digit_char [OF digits(3)] digit_val_digit_char [OF digits(4)]
                bounds, of "[]"]
    by (simp add: hhmm_def)
  then show ?thesis by simp
qed

lemma hhmm_examples: "hhmm 8 0 = ''08:00''" "hhmm 17 0 = ''17:00''"
  by (simp_all add: hhmm_def digit_char_def)

lemma time_to_30min_index_malformed:
  "strptime_HM (take 5 s) = None \<Longrightarrow> time_to_30min_index s = 16"
  by (simp add: time_to_30min_index_def)

text \<open>Different times of day have different texts.\<close>

lemma digit_char_inject:
  assumes "a < 10" and "b < 10" and "digit_char a = digit_char b"
  shows "a = b"
proof -
  have "Some a = digit_val (digit_char a)"
    using assms(1) by (simp only: digit_val_digit_char)
  also have "\<dots> = digit_val (digit_char b)"
    by (simp only: assms(3))
  also have "\<dots> = Some b"
    using assms(2) by (simp only: digit_val_digit_char)
  finally show ?thesis by simp
qed

lemma hhmm_inject:
  assumes "h < 24" and "m < 60" and "h' < 24" and "m' < 60" and "hhmm h m = hhmm h' m'"
  shows "h = h' \<and> m = m'"
proof -
  have d: "h div 10 < 10" "h mod 10 < 10" "m div 10 < 10" "m mod 10 < 10"
    "h' div 10 < 10" "h' mod 10 < 10" "m' div 10 < 10" "m' mod 10 < 10"
    using assms(1-4) by simp_all
  have e: "digit_char (h div 10) = digit_char (h' div 10)"
    "digit_char (h mod 10) = digit_char (h' mod 10)"
    "digit_char (m div 10) = digit_char (m' div 10)"
    "digit_char (m mod 10) = digit_char (m' mod 10)"
    using assms(5) by (simp_all add: hhmm_def)
  have q: "h div 10 = h' div 10" "h mod 10 = h' mod 10" "m div 10 = m' div 10" "m mod 10 = m' mod 10"
    using d e by (simp_all add: digit_char_inject)
  have "h = 10 * (h div 10) + h mod 10" "h' = 10 * (h' div 10) + h' mod 10"
    "m = 10 * (m div 10) + m mod 10" "m' = 10 * (m' div 10) + m' mod 10"
    by simp_all
  with q show ?thesis by presburger
qed

text \<open>The envelope in terms of the two slot indices that the builder computes.\<close>

lemma build_schedule_by_index:
  assumes "i < INTERVALS_PER_DAY"
  shows "length (highTemperatures (build_30min_temperature_schedule cfg)) = 48 \<and>
         length (lowTemperatures (build_30min_temperature_schedule cfg)) = 48 \<and>
         lowTemperatures (build_30min_temperature_schedule cfg) ! i
           \<le> highTemperatures (build_30min_temperature_schedule cfg) ! i \<and>
         (time_to_30min_index (timeAway cfg) \<le> i \<and> i \<le> time_to_30min_index (timeHome cfg) \<longrightarrow>
            highTemperatures (build_30min_temperature_schedule cfg) ! i
              = homeTemperature cfg + calculate_savings_offset (savingsLevel cfg) + 1.4 \<and>
            lowTemperatures (build_30min_temperature_schedule cfg) ! i
              = homeTemperature cfg - calculate_savings_offset (savingsLevel cfg) - 1.4) \<and>
         (\<not> (time_to_30min_index (timeAway cfg) \<le> i \<and> i \<le> time_to_30min_index (timeHome cfg)) \<longrightarrow>
            highTemperatures (build_30min_temperature_schedule cfg) ! i = homeTemperature cfg + 1.4 \<and>
            lowTemperatures (build_30min_temperature_schedule cfg) ! i = homeTemperature cfg - 1.4) \<and>
         (time_to_30min_index (timeHome cfg) < time_to_30min_index (timeAway cfg) \<longrightarrow>
            highTemperatures (build_30min_temperature_schedule cfg) ! i = homeTemperature cfg + 1.4 \<and>
            lowTemperatures (build_30min_temperature_schedule cfg) ! i = homeTemperature cfg - 1.4) \<and>
         calculate_savings_offset (savingsLevel cfg)
           = (if savingsLevel cfg = 1 then 2 else if savingsLevel cfg = 2 then 6
              else if savingsLevel cfg = 3 then 12 else 6) \<and>
         (timeAway cfg = ''08:00'' \<and> timeHome cfg = ''17:00'' \<and> homeTemperature cfg = 72 \<and>
          savingsLevel cfg = 2 \<longrightarrow>
            (16 \<le> i \<and> i \<le> 34 \<longrightarrow>
               highTemperatures (build_30min_temperature_schedule cfg) ! i = 79.4 \<and>
               lowTemperatures (build_30min_temperature_schedule cfg) ! i = 64.6) \<and>
            highTemperatures (build_30min_temperature_schedule cfg) ! 0 = 73.4 \<and>
            lowTemperatures (build_30min_temperature_schedule cfg) ! 0 = 70.6)"
proof -
  have n: "i < 48" using assms by (simp add: INTERVALS_PER_DAY_def)
  have pos: "0 < calculate_savings_offset (savingsLevel cfg)"
    by (rule calculate_savings_offset_pos)
  have hi: "highTemperatures (build_30min_temperature_schedule cfg) ! i =
     (if time_to_30min_index (timeAway cfg) \<le> i \<and> i \<le> time_to_30min_index (timeHome cfg)
               then homeTemperature cfg + calculate_savings_offset (savingsLevel cfg) + 1.4
               else homeTemperature cfg + 1.4)"
    using n by (simp add: highTemperatures_build INTERVALS_PER_DAY_def DEADBAND_OFFSET_def)
  have lo: "lowTemperatures (build_30min_temperature_schedule cfg) ! i =
     (if time_to_30min_index (timeAway cfg) \<le> i \<and> i \<le> time_to_30min_index (timeHome cfg)
               then homeTemperature cfg - calculate_savings_offset (savingsLevel cfg) - 1.4
               else homeTemperature cfg - 1.4)"
    using n by (simp add: lowTemperatures_build INTERVALS_PER_DAY_def DEADBAND_OFFSET_def)
  have hi0: "highTemperatures (build_30min_temperature_schedule cfg) ! 0 =
     (if time_to_30min_index (timeAway cfg) \<le> 0 \<and> 0 \<le> time_to_30min_index (timeHome cfg)
               then homeTemperature cfg + calculate_savings_offset (savingsLevel cfg) + 1.4
               else homeTemperature cfg + 1.4)"
    by (simp add: highTemperatures_build INTERVALS_PER_DAY_def DEADBAND_OFFSET_def)
  have lo0: "lowTemperatures (build_30min_temperature_schedule cfg) ! 0 =
     (if time_to_30min_index (timeAway cfg) \<le> 0 \<and> 0 \<le> time_to_30min_index (timeHome cfg)
               then homeTemperature cfg - calculate_savings_offset (savingsLevel cfg) - 1.4
               else homeTemperature cfg - 1.4)"
    by (simp add: lowTemperatures_build INTERVALS_PER_DAY_def DEADBAND_OFFSET_def)
  have len: "length (highTemperatures (build_30min_temperature_schedule cfg)) = 48"
            "length (lowTemperatures (build_30min_temperature_schedule cfg)) = 48"
    by (simp_all add: highTemperatures_build lowTemperatures_build INTERVALS_PER_DAY_def)
  have ord: "lowTemperatures (build_30min_temperature_schedule cfg) ! i
           \<le> highTemperatures (build_30min_temperature_schedule cfg) ! i"
    using pos by (simp add: hi lo)
  have off: "calculate_savings_offset (savingsLevel cfg)
           = (if savingsLevel cfg = 1 then 2 else if savingsLevel cfg = 2 then 6
              else if savingsLevel cfg = 3 then 12 else 6)"
    by (simp add: calculate_savings_offset_def)
  have ex: "timeAway cfg = ''08:00'' \<and> timeHome cfg = ''17:00'' \<and> homeTemperature cfg = 72 \<and>
          savingsLevel cfg = 2 \<longrightarrow>
            (16 \<le> i \<and> i \<le> 34 \<longrightarrow>
               highTemperatures (build_30min_temperature_schedule cfg) ! i = 79.4 \<and>
               lowTemperatures (build_30min_temperature_schedule cfg) ! i = 64.6) \<and>
            highTemperatures (build_30min_temperature_schedule cfg) ! 0 = 73.4 \<and>
            lowTemperatures (build_30min_temperature_schedule cfg) ! 0 = 70.6"
    by (simp add: hi lo hi0 lo0 index_0800 index_1700 calculate_savings_offset_def)
  show ?thesis
    using len ord off ex by (simp add: hi lo)
qed

text \<open>Fetching thermal rates touches the rate attributes only.\<close>

lemma fetch_keeps_results:
  "optimization_results (async_fetch_thermal_rates_from_backend r t st) = optimization_results st"
  "schedule_data (async_fetch_thermal_rates_from_backend r t st) = schedule_data st"
  "daily_schedule (async_fetch_thermal_rates_from_backend r t st) = daily_schedule st"
  "config (async_fetch_thermal_rates_from_backend r t st) = config st"
  "custom_temperature_schedule (async_fetch_thermal_rates_from_backend r t st)
     = custom_temperature_schedule st"
  by (simp_all add: async_fetch_thermal_rates_from_backend_def split: rates_reply.splits option.splits)

text \<open>
  The refresh fails exactly when the optimizer call fails, or the reply is a mapping in
  which one of the two sequences has no length.
\<close>

lemma refresh_fails_iff:
  "isl (fst (async_update_data e st)) \<longleftrightarrow>
   optimizer_call_fails
     (optimizer e (build_request (async_fetch_thermal_rates_from_backend (rates e) (clock e) st))) \<or>
   (\<exists>status kvs.
      optimizer e (build_request (async_fetch_thermal_rates_from_backend (rates e) (clock e) st))
        = Reply status (Inr (JDict kvs)) \<and>
      \<not> (has_len (dict_get kvs ''HourlyTemperature'' (JList [])) \<and>
         has_len (dict_get kvs ''bestTempActual'' (JList []))))"
proof (cases "optimizer e (build_request (async_fetch_thermal_rates_from_backend (rates e) (clock e) st))")
  case TransportError
  then show ?thesis by (simp add: async_update_data_def Let_def optimizer_call_fails_def)
next
  case Timeout
  then show ?thesis by (simp add: async_update_data_def Let_def optimizer_call_fails_def)
next
  case (Reply status body)
  show ?thesis
  proof (cases body)
    case (Inl err)
    with Reply show ?thesis
      by (simp add: async_update_data_def Let_def optimizer_call_fails_def raise_for_status_def)
  next
    case (Inr d)
    with Reply show ?thesis
      by (cases d)
         (simp_all add: async_update_data_def Let_def optimizer_call_fails_def
            raise_for_status_def has_len_def split: sum.splits)
  qed
qed

text \<open>The debounce gate.\<close>

lemma update_keeps_debounce:
  "update_debounce_seconds (snd (async_update_schedule t p st)) = update_debounce_seconds st"
  by (simp add: async_update_schedule_def Let_def split: option.splits)

lemma update_rejected:
  "t - last_update_time st < update_debounce_seconds st \<Longrightarrow>
   async_update_schedule t p st = (Ignored, st)"
  by (simp add: async_update_schedule_def Let_def)

lemma update_admitted:
  "\<not> t - last_update_time st < update_debounce_seconds st \<Longrightarrow>
   fst (async_update_schedule t p st) \<noteq> Ignored \<and>
   last_update_time (snd (async_update_schedule t p st)) = t"
  by (simp add: async_update_schedule_def Let_def split: option.splits)

text \<open>Appending readings one by one extends the buffer at its end.\<close>

lemma fold_append_reading:
  "fold append_reading rs c = c\<lparr> pending_readings := pending_readings c @ rs \<rparr>"
  by (induction rs arbitrary: c) (simp_all add: append_reading_def)

text \<open>No run of the daily summary changes the list of logged user actions.\<close>

lemma daily_summary_keeps_inputs:
  "user_inputs_today (snd (snd (send_daily_summary e c))) = user_inputs_today c"
  by (simp add: send_daily_summary_def send_sensor_batch_def Let_def
      split: option.splits post_reply.splits jval.splits prod.splits)

subsection \<open>C1: a failed optimizer call\<close>

text \<open>
  C1, as stated, with "non-2xx status" read literally, fails: a response with status 300 and
  a mapping body passes \<^verbatim>\<open>raise_for_status\<close>, the refresh returns it and the stored
  result is replaced.
\<close>

theorem refresh_redirect_status_counterexample:
  "fst (async_update_data (example_env (Reply 300 (Inr (JDict [])))) stored_coordinator)
     = Inr (JDict []) \<and>
   optimization_results
     (snd (async_update_data (example_env (Reply 300 (Inr (JDict [])))) stored_coordinator))
     = JDict [] \<and>
   optimization_results stored_coordinator \<noteq> JDict []"
  by (simp add: example_env_def stored_coordinator_def example_results_def
        async_update_data_def raise_for_status_def dict_get_def Let_def)

text \<open>
  C1 (amended). For every run of the refresh in which the optimizer call fails (a status of
  400 or more, a transport error or timeout, or a body that is not a mapping), the refresh
  raises \<^verbatim>\<open>UpdateFailed\<close>, and the stored optimization result, hourly-temperature
  sequence and daily best-setpoint sequence are the ones stored before.
\<close>

theorem refresh_failure_keeps_result:
  assumes "optimizer_call_fails
             (optimizer e (build_request
                (async_fetch_thermal_rates_from_backend (rates e) (clock e) st)))"
  shows "(\<exists>cause. fst (async_update_data e st) = Inl (UpdateFailed cause)) \<and>
         optimization_results (snd (async_update_data e st)) = optimization_results st \<and>
         schedule_data (snd (async_update_data e st)) = schedule_data st \<and>
         daily_schedule (snd (async_update_data e st)) = daily_schedule st"
  using assms
  by (auto simp add: async_update_data_def Let_def optimizer_call_fails_def raise_for_status_def
        fetch_keeps_results
      split: http_reply.splits option.splits sum.splits jval.splits)

text \<open>The optimizer answers 500 to a coordinator that holds a result: the result stays.\<close>

theorem refresh_failure_keeps_result_witness:
  "optimizer_call_fails (Reply 500 (Inl ValueError)) \<and>
   fst (async_update_data (example_env (Reply 500 (Inl ValueError))) stored_coordinator)
     = Inl (UpdateFailed ClientError) \<and>
   optimization_results (snd (async_update_data (example_env (Reply 500 (Inl ValueError))) stored_coordinator))
     = example_results"
  using refresh_failure_keeps_result [of "example_env (Reply 500 (Inl ValueError))" stored_coordinator]
  by (simp add: optimizer_call_fails_def example_env_def stored_coordinator_def
        async_update_data_def raise_for_status_def Let_def)

subsection \<open>C2: the debounce gate\<close>

text \<open>
  C2. With the window of 2 seconds, a call at time \<open>now\<close> is admitted if and only if
  \<open>now - last_update_time \<ge> 2\<close>; an admitted call records \<open>now\<close>; a rejected call ends
  without an exception and returns the state it was given. After an admitted call, a call
  one second later is rejected and leaves the state as it is, and a call 2.1 seconds after
  the first is admitted.
\<close>

theorem debounce_gate:
  assumes "update_debounce_seconds st = 2"
  shows "(fst (async_update_schedule now p st) \<noteq> Ignored \<longleftrightarrow> 2 \<le> now - last_update_time st) \<and>
         (2 \<le> now - last_update_time st \<longrightarrow>
            last_update_time (snd (async_update_schedule now p st)) = now) \<and>
         (\<not> 2 \<le> now - last_update_time st \<longrightarrow>
            async_update_schedule now p st = (Ignored, st)) \<and>
         (2 \<le> now - last_update_time st \<longrightarrow>
            fst (async_update_schedule (now + 1) p2
                   (snd (async_update_schedule now p st))) = Ignored \<and>
            snd (async_update_schedule (now + 1) p2 (snd (async_update_schedule now p st)))
              = snd (async_update_schedule now p st) \<and>
            fst (async_update_schedule (now + 2.1) p3
                   (snd (async_update_schedule (now + 1) p2
                      (snd (async_update_schedule now p st))))) \<noteq> Ignored)"
proof (cases "2 \<le> now - last_update_time st")
  case False
  then have "now - last_update_time st < update_debounce_seconds st"
    using assms by simp
  then have "async_update_schedule now p st = (Ignored, st)"
    by (rule update_rejected)
  with False show ?thesis by simp
next
  case True
  let ?s1 = "snd (async_update_schedule now p st)"
  from True have adm: "\<not> now - last_update_time st < update_debounce_seconds st"
    using assms by simp
  have o1: "fst (async_update_schedule now p st) \<noteq> Ignored" and l1: "last_update_time ?s1 = now"
    using update_admitted [OF adm] by simp_all
  have d1: "update_debounce_seconds ?s1 = 2"
    using assms by (simp add: update_keeps_debounce)
  have "now + 1 - last_update_time ?s1 < update_debounce_seconds ?s1"
    by (simp add: l1 d1)
  then have r2: "async_update_schedule (now + 1) p2 ?s1 = (Ignored, ?s1)"
    by (rule update_rejected)
  have "\<not> now + 2.1 - last_update_time ?s1 < update_debounce_seconds ?s1"
    by (simp add: l1 d1)
  then have o3: "fst (async_update_schedule (now + 2.1) p3 ?s1) \<noteq> Ignored"
    using update_admitted by blast
  show ?thesis
    using True o1 l1 r2 o3 by simp
qed

text \<open>A fresh coordinator called at clock readings 1000, 1001 and 1002.1.\<close>

theorem debounce_gate_witness:
  "update_debounce_seconds example_coordinator = 2 \<and>
   fst (async_update_schedule 1000 empty_patch example_coordinator) = Proceeded \<and>
   last_update_time (snd (async_update_schedule 1000 empty_patch example_coordinator)) = 1000 \<and>
   async_update_schedule 1001 empty_patch
     (snd (async_update_schedule 1000 empty_patch example_coordinator))
     = (Ignored, snd (async_update_schedule 1000 empty_patch example_coordinator)) \<and>
   fst (async_update_schedule (1000 + 2.1) empty_patch
          (snd (async_update_schedule 1001 empty_patch
             (snd (async_update_schedule 1000 empty_patch example_coordinator))))) = Proceeded"
proof -
  have d: "update_debounce_seconds example_coordinator = 2"
    by (simp add: example_coordinator_def init_coordinator_def)
  have l: "last_update_time example_coordinator = 0"
    by (simp add: example_coordinator_def init_coordinator_def)
  have pr: "\<And>t st. fst (async_update_schedule t empty_patch st) \<noteq> Ignored \<Longrightarrow>
                 fst (async_update_schedule t empty_patch st) = Proceeded"
    by (simp add: async_update_schedule_def Let_def empty_patch_def split: if_splits)
  from debounce_gate [OF d, of 1000 empty_patch empty_patch empty_patch] l
  show ?thesis
    using d pr by (auto simp add: prod_eq_iff)
qed

subsection \<open>C3: the basic envelope\<close>

text \<open>
  C3. For every preferences input whose away and home times are well-formed
  \<^verbatim>\<open>HH:MM\<close> texts of the times \<open>ha:ma\<close> and \<open>hh:mh\<close>, the slot indices are
  \<open>(ha * 60 + ma) div 30\<close> and \<open>(hh * 60 + mh) div 30\<close>, and the built schedule has
  exactly 48 high and 48 low entries with \<open>high ! i \<ge> low ! i\<close> at every slot \<open>i\<close>; a
  slot in the inclusive range from the away slot to the home slot has
  \<open>high = base + offset + 1.4\<close> and \<open>low = base - offset - 1.4\<close>, where the offset is 2,
  6, 12 for the levels 1, 2, 3 and 6 otherwise; every other slot has \<open>high = base + 1.4\<close>
  and \<open>low = base - 1.4\<close>; when the away slot is after the home slot every slot has these
  home values. For 08:00, 17:00, base 72 and level 2, the slots 16 to 34 have high 79.4
  and low 64.6, and slot 0 has high 73.4 and low 70.6.
\<close>

theorem build_schedule_envelope:
  assumes "i < INTERVALS_PER_DAY"
    and "timeAway cfg = hhmm ha ma" and "ha < 24" and "ma < 60"
    and "timeHome cfg = hhmm hh mh" and "hh < 24" and "mh < 60"
  shows "time_to_30min_index (timeAway cfg) = (ha * 60 + ma) div 30 \<and>
         time_to_30min_index (timeHome cfg) = (hh * 60 + mh) div 30 \<and>
         length (highTemperatures (build_30min_temperature_schedule cfg)) = 48 \<and>
         length (lowTemperatures (build_30min_temperature_schedule cfg)) = 48 \<and>
         lowTemperatures (build_30min_temperature_schedule cfg) ! i
           \<le> highTemperatures (build_30min_temperature_schedule cfg) ! i \<and>
         ((ha * 60 + ma) div 30 \<le> i \<and> i \<le> (hh * 60 + mh) div 30 \<longrightarrow>
            highTemperatures (build_30min_temperature_schedule cfg) ! i
              = homeTemperature cfg + calculate_savings_offset (savingsLevel cfg) + 1.4 \<and>
            lowTemperatures (build_30min_temperature_schedule cfg) ! i
              = homeTemperature cfg - calculate_savings_offset (savingsLevel cfg) - 1.4) \<and>
         (\<not> ((ha * 60 + ma) div 30 \<le> i \<and> i \<le> (hh * 60 + mh) div 30) \<longrightarrow>
            highTemperatures (build_30min_temperature_schedule cfg) ! i = homeTemperature cfg + 1.4 \<and>
            lowTemperatures (build_30min_temperature_schedule cfg) ! i = homeTemperature cfg - 1.4) \<and>
         ((hh * 60 + mh) div 30 < (ha * 60 + ma) div 30 \<longrightarrow>
            highTemperatures (build_30min_temperature_schedule cfg) ! i = homeTemperature cfg + 1.4 \<and>
            lowTemperatures (build_30min_temperature_schedule cfg) ! i = homeTemperature cfg - 1.4) \<and>
         calculate_savings_offset (savingsLevel cfg)
           = (if savingsLevel cfg = 1 then 2 else if savingsLevel cfg = 2 then 6
              else if savingsLevel cfg = 3 then 12 else 6) \<and>
         (timeAway cfg = ''08:00'' \<and> timeHome cfg = ''17:00'' \<and> homeTemperature cfg = 72 \<and>
          savingsLevel cfg = 2 \<longrightarrow>
            ha = 8 \<and> ma = 0 \<and> hh = 17 \<and> mh = 0 \<and>
            (16 \<le> i \<and> i \<le> 34 \<longrightarrow>
               highTemperatures (build_30min_temperature_schedule cfg) ! i = 79.4 \<and>
               lowTemperatures (build_30min_temperature_schedule cfg) ! i = 64.6) \<and>
            highTemperatures (build_30min_temperature_schedule cfg) ! 0 = 73.4 \<and>
            lowTemperatures (build_30min_temperature_schedule cfg) ! 0 = 70.6)"
proof -
  have away: "time_to_30min_index (timeAway cfg) = (ha * 60 + ma) div 30"
    using assms(2-4) by (simp add: time_to_30min_index_hhmm)
  have home: "time_to_30min_index (timeHome cfg) = (hh * 60 + mh) div 30"
    using assms(5-7) by (simp add: time_to_30min_index_hhmm)
  have times: "ha = 8 \<and> ma = 0" if "timeAway cfg = ''08:00''"
    using hhmm_inject [of ha ma 8 0] assms(2-4) that by (simp add: hhmm_examples)
  have times': "hh = 17 \<and> mh = 0" if "timeHome cfg = ''17:00''"
    using hhmm_inject [of hh mh 17 0] assms(5-7) that by (simp add: hhmm_examples)
  note by_index = build_schedule_by_index [OF assms(1), of cfg, unfolded away home]
  have example: "timeAway cfg = ''08:00'' \<and> timeHome cfg = ''17:00'' \<and> homeTemperature cfg = 72 \<and>
          savingsLevel cfg = 2 \<longrightarrow>
            ha = 8 \<and> ma = 0 \<and> hh = 17 \<and> mh = 0 \<and>
            (16 \<le> i \<and> i \<le> 34 \<longrightarrow>
               highTemperatures (build_30min_temperature_schedule cfg) ! i = 79.4 \<and>
               lowTemperatures (build_30min_temperature_schedule cfg) ! i = 64.6) \<and>
            highTemperatures (build_30min_temperature_schedule cfg) ! 0 = 73.4 \<and>
            lowTemperatures (build_30min_temperature_schedule cfg) ! 0 = 70.6"
    using by_index times times' by blast
  show ?thesis
    using away home by_index example by blast
qed

text \<open>
  Slot 20 (10:00) of the example preferences lies in the away period; with the two times
  exchanged the away period is empty and slot 20 has the home values.
\<close>

theorem build_schedule_envelope_witness:
  "(20::nat) < INTERVALS_PER_DAY \<and>
   timeAway (config example_coordinator) = hhmm 8 0 \<and>
   timeHome (config example_coordinator) = hhmm 17 0 \<and>
   time_to_30min_index (timeAway (config example_coordinator)) = 16 \<and>
   time_to_30min_index (timeHome (config example_coordinator)) = 34 \<and>
   length (highTemperatures (build_30min_temperature_schedule (config example_coordinator))) = 48 \<and>
   highTemperatures (build_30min_temperature_schedule (config example_coordinator)) ! 20 = 79.4 \<and>
   lowTemperatures (build_30min_temperature_schedule (config example_coordinator)) ! 20 = 64.6 \<and>
   highTemperatures (build_30min_temperature_schedule (config example_coordinator)) ! 0 = 73.4 \<and>
   lowTemperatures (build_30min_temperature_schedule (config example_coordinator)) ! 0 = 70.6 \<and>
   highTemperatures (build_30min_temperature_schedule
      ((config example_coordinator)\<lparr> timeAway := ''17:00'', timeHome := ''08:00'' \<rparr>)) ! 20 = 73.4 \<and>
   lowTemperatures (build_30min_temperature_schedule
      ((config example_coordinator)\<lparr> timeAway := ''17:00'', timeHome := ''08:00'' \<rparr>)) ! 20 = 70.6"
proof -
  let ?cfg = "config example_coordinator"
  let ?cfg' = "(config example_coordinator)\<lparr> timeAway := ''17:00'', timeHome := ''08:00'' \<rparr>"
  have i: "(20::nat) < INTERVALS_PER_DAY"
    by (simp add: INTERVALS_PER_DAY_def)
  have fields: "timeAway ?cfg = ''08:00''" "timeHome ?cfg = ''17:00''"
    "homeTemperature ?cfg = 72" "savingsLevel ?cfg = 2"
    by (simp_all add: example_coordinator_def init_coordinator_def)
  have a: "timeAway ?cfg = hhmm 8 0" and h: "timeHome ?cfg = hhmm 17 0"
    by (simp_all add: fields hhmm_examples)
  have a': "timeAway ?cfg' = hhmm 17 0" and h': "timeHome ?cfg' = hhmm 8 0"
    by (simp_all add: hhmm_examples)
  have away_first: "time_to_30min_index (timeAway ?cfg) = 16 \<and>
      time_to_30min_index (timeHome ?cfg) = 34 \<and>
      length (highTemperatures (build_30min_temperature_schedule ?cfg)) = 48 \<and>
      highTemperatures (build_30min_temperature_schedule ?cfg) ! 20 = 79.4 \<and>
      lowTemperatures (build_30min_temperature_schedule ?cfg) ! 20 = 64.6 \<and>
      highTemperatures (build_30min_temperature_schedule ?cfg) ! 0 = 73.4 \<and>
      lowTemperatures (build_30min_temperature_schedule ?cfg) ! 0 = 70.6"
    using build_schedule_envelope [OF i a _ _ h] fields by simp
  have home_first: "highTemperatures (build_30min_temperature_schedule ?cfg') ! 20 = 73.4 \<and>
      lowTemperatures (build_30min_temperature_schedule ?cfg') ! 20 = 70.6"
    using build_schedule_envelope [OF i a' _ _ h'] fields by simp
  show ?thesis
    using i a h away_first home_first by blast
qed

subsection \<open>C4: the pending readings after a failed upload\<close>

text \<open>
  C4. When the buffer holds readings and the upload fails (the post raises or the status is
  not 200), one request with the whole buffer has been issued and the collector is
  unchanged, so every reading is still buffered. When readings \<open>rs\<close> are appended
  afterwards and the next upload is answered with 200, that upload issues exactly one
  request, carrying the retained readings followed by \<open>rs\<close>, and leaves the buffer empty.
\<close>

theorem batch_upload_retry:
  assumes "pending_readings c \<noteq> []"
    and "upload_failed
           (bad \<lparr> sp_user_id = collector_user_id c, sp_readings = pending_readings c \<rparr>)"
    and "good \<lparr> sp_user_id = collector_user_id c, sp_readings = pending_readings c @ rs \<rparr>
           = PostReply 200 body"
  shows "send_sensor_batch bad c
           = ([SensorData \<lparr> sp_user_id = collector_user_id c,
                            sp_readings = pending_readings c \<rparr>], c) \<and>
         send_sensor_batch good (fold append_reading rs (snd (send_sensor_batch bad c)))
           = ([SensorData \<lparr> sp_user_id = collector_user_id c,
                            sp_readings = pending_readings c @ rs \<rparr>],
              c\<lparr> pending_readings := [] \<rparr>)"
proof -
  have first: "send_sensor_batch bad c
           = ([SensorData \<lparr> sp_user_id = collector_user_id c,
                            sp_readings = pending_readings c \<rparr>], c)"
    using assms(1,2)
    by (simp add: send_sensor_batch_def Let_def upload_failed_def split: post_reply.splits)
  have second: "send_sensor_batch good (c\<lparr> pending_readings := pending_readings c @ rs \<rparr>)
           = ([SensorData \<lparr> sp_user_id = collector_user_id c,
                            sp_readings = pending_readings c @ rs \<rparr>],
              c\<lparr> pending_readings := [] \<rparr>)"
    using assms(1,3) by (simp add: send_sensor_batch_def Let_def)
  show ?thesis
    by (simp add: first fold_append_reading second)
qed

text \<open>
  Three buffered readings, an endpoint that answers 500, a fourth reading, and an endpoint
  that answers 200.
\<close>

theorem batch_upload_retry_witness:
  "send_sensor_batch (\<lambda>payload. PostReply 500 None)
     ((init_collector ''user-1'')\<lparr> pending_readings :=
         [example_reading ''t1'', example_reading ''t2'', example_reading ''t3''] \<rparr>)
     = ([SensorData \<lparr> sp_user_id = ''user-1'', sp_readings =
           [example_reading ''t1'', example_reading ''t2'', example_reading ''t3''] \<rparr>],
        (init_collector ''user-1'')\<lparr> pending_readings :=
         [example_reading ''t1'', example_reading ''t2'', example_reading ''t3''] \<rparr>) \<and>
   send_sensor_batch (\<lambda>payload. PostReply 200 None)
     (fold append_reading [example_reading ''t4'']
        (snd (send_sensor_batch (\<lambda>payload. PostReply 500 None)
           ((init_collector ''user-1'')\<lparr> pending_readings :=
             [example_reading ''t1'', example_reading ''t2'', example_reading ''t3''] \<rparr>))))
     = ([SensorData \<lparr> sp_user_id = ''user-1'', sp_readings =
           [example_reading ''t1'', example_reading ''t2'', example_reading ''t3'',
            example_reading ''t4''] \<rparr>],
        init_collector ''user-1'')"
  using batch_upload_retry [of
      "(init_collector ''user-1'')\<lparr> pending_readings :=
         [example_reading ''t1'', example_reading ''t2'', example_reading ''t3''] \<rparr>"
      "\<lambda>payload. PostReply 500 None" "\<lambda>payload. PostReply 200 None"
      "[example_reading ''t4'']" None]
  by (auto simp add: init_collector_def upload_failed_def)

subsection \<open>C5: the logged user actions after the daily summary\<close>

text \<open>
  C5 says that the list of logged user actions is empty after a successful send. The code
  at that input: one logged action, the summary endpoint answers 200 with a mapping. The
  summary is posted with the action in it, the thermal rates are returned, and the list
  still holds the action.
\<close>

theorem daily_summary_success_keeps_inputs:
  "send_daily_summary (example_summary_env PostRaised (PostReply 200 (Some (JDict []))))
     ((init_collector ''user-1'')\<lparr> user_inputs_today := [example_input] \<rparr>)
   = ([DailySummary \<lparr> sm_user_id = ''user-1'', sm_date = 19999, sm_inputs_today = 1,
                      sm_services_used = [example_input], sm_weather_forecast = JNull,
                      sm_optimization_mode = ''cool'' \<rparr>],
      Some (JDict []),
      (init_collector ''user-1'')\<lparr> user_inputs_today := [example_input] \<rparr>)"
  by (simp add: send_daily_summary_def example_summary_env_def init_collector_def Let_def
        dict_get_def)

subsection \<open>C6: the body of a 2xx response\<close>

text \<open>
  C6, as stated, fails for a mapping without the expected fields: the empty mapping with
  status 200 is returned as the result of the refresh.
\<close>

theorem refresh_missing_fields_counterexample:
  "fst (async_update_data (example_env (Reply 200 (Inr (JDict [])))) stored_coordinator)
     = Inr (JDict []) \<and>
   map_of [] ''HourlyTemperature'' = (None :: jval option) \<and>
   map_of [] ''bestTempActual'' = (None :: jval option)"
  by (simp add: example_env_def stored_coordinator_def
        async_update_data_def raise_for_status_def dict_get_def Let_def)

text \<open>
  C6 (amended). For every optimizer response with a 2xx status, the refresh fails when
  reading the body as JSON raises, and when the body is not a mapping. A mapping that lacks
  the expected fields is not a failure: when each of \<^verbatim>\<open>HourlyTemperature\<close> and
  \<^verbatim>\<open>bestTempActual\<close> is missing or is a value with a length, the refresh succeeds,
  the mapping becomes the stored result, and the two stored sequences are the values of
  the fields, or the empty list where the field is missing.
\<close>

theorem refresh_body_validation:
  assumes "optimizer e (build_request
             (async_fetch_thermal_rates_from_backend (rates e) (clock e) st)) = Reply status body"
    and "200 \<le> status" and "status < 300"
  shows "(body = Inl err \<longrightarrow> fst (async_update_data e st) = Inl (UpdateFailed err)) \<and>
         (body = Inr d \<and> \<not> is_dict d \<longrightarrow>
            fst (async_update_data e st) = Inl (UpdateFailed ValueError)) \<and>
         (body = Inr (JDict kvs) \<and>
          (map_of kvs ''HourlyTemperature'' = None \<or>
             (\<exists>v. map_of kvs ''HourlyTemperature'' = Some v \<and> has_len v)) \<and>
          (map_of kvs ''bestTempActual'' = None \<or>
             (\<exists>v. map_of kvs ''bestTempActual'' = Some v \<and> has_len v)) \<longrightarrow>
            fst (async_update_data e st) = Inr (JDict kvs) \<and>
            optimization_results (snd (async_update_data e st)) = JDict kvs \<and>
            schedule_data (snd (async_update_data e st))
              = (case map_of kvs ''HourlyTemperature'' of Some v \<Rightarrow> v | None \<Rightarrow> JList []) \<and>
            daily_schedule (snd (async_update_data e st))
              = (case map_of kvs ''bestTempActual'' of Some v \<Rightarrow> v | None \<Rightarrow> JList []))"
proof -
  have failing: "body = Inl err \<longrightarrow> fst (async_update_data e st) = Inl (UpdateFailed err)"
    using assms by (simp add: async_update_data_def Let_def raise_for_status_def)
  have not_mapping: "body = Inr d \<and> \<not> is_dict d \<longrightarrow>
      fst (async_update_data e st) = Inl (UpdateFailed ValueError)"
    using assms
    by (cases d) (simp_all add: async_update_data_def Let_def raise_for_status_def)
  have sized: "has_len (dict_get kvs k (JList []))"
    if "map_of kvs k = None \<or> (\<exists>v. map_of kvs k = Some v \<and> has_len v)" for k
    using that by (auto simp add: dict_get_def has_len_def)
  have len_ok: "\<exists>n. py_len v = Inr n" if "has_len v" for v
    using that by (simp add: has_len_def split: sum.splits)
  have mapping: "fst (async_update_data e st) = Inr (JDict kvs) \<and>
      optimization_results (snd (async_update_data e st)) = JDict kvs \<and>
      schedule_data (snd (async_update_data e st))
        = (case map_of kvs ''HourlyTemperature'' of Some v \<Rightarrow> v | None \<Rightarrow> JList []) \<and>
      daily_schedule (snd (async_update_data e st))
        = (case map_of kvs ''bestTempActual'' of Some v \<Rightarrow> v | None \<Rightarrow> JList [])"
    if b: "body = Inr (JDict kvs)"
      and h: "map_of kvs ''HourlyTemperature'' = None \<or>
             (\<exists>v. map_of kvs ''HourlyTemperature'' = Some v \<and> has_len v)"
      and d: "map_of kvs ''bestTempActual'' = None \<or>
             (\<exists>v. map_of kvs ''bestTempActual'' = Some v \<and> has_len v)"
  proof -
    obtain n where n: "py_len (dict_get kvs ''HourlyTemperature'' (JList [])) = Inr n"
      using len_ok [OF sized [OF h]] by blast
    obtain m where m: "py_len (dict_get kvs ''bestTempActual'' (JList [])) = Inr m"
      using len_ok [OF sized [OF d]] by blast
    show ?thesis
      using assms b n m
      by (simp add: async_update_data_def Let_def raise_for_status_def)
         (simp add: dict_get_def)
  qed
  show ?thesis
    using failing not_mapping mapping by blast
qed

text \<open>
  A list as body fails; a mapping with neither field succeeds with empty sequences; a
  mapping with both sequences succeeds and stores them.
\<close>

theorem refresh_body_validation_witness:
  "fst (async_update_data (example_env (Reply 200 (Inr (JList [])))) stored_coordinator)
     = Inl (UpdateFailed ValueError) \<and>
   fst (async_update_data (example_env (Reply 200 (Inr (JDict [(''costSavings'', JNum 3)]))))
          stored_coordinator) = Inr (JDict [(''costSavings'', JNum 3)]) \<and>
   schedule_data (snd (async_update_data
      (example_env (Reply 200 (Inr (JDict [(''costSavings'', JNum 3)])))) stored_coordinator))
     = JList [] \<and>
   daily_schedule (snd (async_update_data
      (example_env (Reply 200 (Inr (JDict [(''costSavings'', JNum 3)])))) stored_coordinator))
     = JList [] \<and>
   daily_schedule (snd (async_update_data
      (example_env (Reply 200 (Inr (JDict [(''HourlyTemperature'', JList [JNum 70]),
                                           (''bestTempActual'', JList [JNum 69])]))))
      stored_coordinator))
     = JList [JNum 69]"
  using refresh_body_validation [of "example_env (Reply 200 (Inr (JList [])))" stored_coordinator
          200 "Inr (JList [])" ValueError "JList []" "[]"]
        refresh_body_validation [of "example_env (Reply 200 (Inr (JDict [(''costSavings'', JNum 3)])))"
          stored_coordinator 200 "Inr (JDict [(''costSavings'', JNum 3)])" ValueError JNull
          "[(''costSavings'', JNum 3)]"]
        refresh_body_validation [of
          "example_env (Reply 200 (Inr (JDict [(''HourlyTemperature'', JList [JNum 70]),
                                               (''bestTempActual'', JList [JNum 69])])))"
          stored_coordinator 200
          "Inr (JDict [(''HourlyTemperature'', JList [JNum 70]),
                       (''bestTempActual'', JList [JNum 69])])" ValueError JNull
          "[(''HourlyTemperature'', JList [JNum 70]), (''bestTempActual'', JList [JNum 69])]"]
  by (simp add: example_env_def has_len_def)

subsection \<open>C7: malformed time strings\<close>

text \<open>
  C7 says that a malformed \<^verbatim>\<open>timeAway\<close> supplied to a preference update raises. The
  code at that input: an admitted update with \<^verbatim>\<open>timeAway = "garbage"\<close> ends without an
  exception and stores the first five characters; neither string parses as a time, and
  the schedule builder resolves the stored one to slot 16.
\<close>

theorem update_stores_malformed_time:
  "fst (async_update_schedule 1000 (empty_patch\<lparr> p_timeAway := Some ''garbage'' \<rparr>)
          example_coordinator) = Proceeded \<and>
   timeAway (config (snd (async_update_schedule 1000
      (empty_patch\<lparr> p_timeAway := Some ''garbage'' \<rparr>) example_coordinator))) = ''garba'' \<and>
   strptime_HM ''garbage'' = None \<and>
   strptime_HM ''garba'' = None \<and>
   time_to_30min_index ''garba'' = 16"
  by (simp add: async_update_schedule_def Let_def empty_patch_def example_coordinator_def
        init_coordinator_def merge_config_def strptime_HM_def parse_hour_def digit_val_def
        time_to_30min_index_def)

subsection \<open>C8: the custom envelope\<close>

text \<open>
  C8. For every admitted update: when the patch has a \<^verbatim>\<open>temperatureSchedule\<close>, the
  stored custom envelope afterwards is that value; when it has none, the update ends
  without an exception, the stored custom envelope is \<^verbatim>\<open>None\<close>, and the request of
  the next refresh carries the basic envelope built from the preferences.
\<close>

theorem custom_schedule_replaced_or_cleared:
  assumes "update_debounce_seconds st \<le> now - last_update_time st"
  shows "(p_temperatureSchedule p = Some v \<longrightarrow>
            custom_temperature_schedule (snd (async_update_schedule now p st)) = v) \<and>
         (p_temperatureSchedule p = None \<longrightarrow>
            fst (async_update_schedule now p st) = Proceeded \<and>
            custom_temperature_schedule (snd (async_update_schedule now p st)) = JNull \<and>
            req_temperatureSchedule
              (build_request (async_fetch_thermal_rates_from_backend r t
                 (snd (async_update_schedule now p st))))
              = schedule_json (build_30min_temperature_schedule
                  (config (snd (async_update_schedule now p st)))))"
  using assms
  by (auto simp add: async_update_schedule_def Let_def build_request_def select_schedule_def
        fetch_keeps_results split: option.splits)

text \<open>A patch with a schedule on a fresh coordinator; a patch without one on a coordinator
  that holds a custom schedule.\<close>

theorem custom_schedule_replaced_or_cleared_witness:
  "update_debounce_seconds example_coordinator \<le> 1000 - last_update_time example_coordinator \<and>
   custom_temperature_schedule (snd (async_update_schedule 1000
      (empty_patch\<lparr> p_temperatureSchedule := Some (JDict [(''highTemperatures'', JList [JNum 75])]) \<rparr>)
      example_coordinator)) = JDict [(''highTemperatures'', JList [JNum 75])] \<and>
   custom_temperature_schedule (snd (async_update_schedule 1003 empty_patch
      (example_coordinator\<lparr> custom_temperature_schedule := JDict [(''highTemperatures'', JList [JNum 75])] \<rparr>)))
     = JNull"
  using custom_schedule_replaced_or_cleared [of example_coordinator 1000
          "empty_patch\<lparr> p_temperatureSchedule := Some (JDict [(''highTemperatures'', JList [JNum 75])]) \<rparr>"
          "JDict [(''highTemperatures'', JList [JNum 75])]" RatesRaised 0]
        custom_schedule_replaced_or_cleared [of 
          "example_coordinator\<lparr> custom_temperature_schedule := JDict [(''highTemperatures'', JList [JNum 75])] \<rparr>"
          1003 empty_patch JNull RatesRaised 0]
  by (simp add: example_coordinator_def init_coordinator_def empty_patch_def)

subsection \<open>C9: the schedule bounds\<close>

text \<open>
  C9, as stated, fails for an array of two elements: it does not have fewer than two
  elements, and the result is \<^verbatim>\<open>None\<close>.
\<close>

theorem schedule_bounds_two_elements_counterexample:
  "get_schedule_bounds (example_coordinator\<lparr> schedule_data := JList [JNum 75, JNum 70] \<rparr>)
     = Inr None \<and> \<not> length [JNum 75, JNum 70] < 2"
  by (simp add: get_schedule_bounds_def)

text \<open>
  C9 (amended). For every stored array, the result is \<^verbatim>\<open>None\<close> exactly when fewer
  than three elements are present, and otherwise the pair of the elements at positions 1
  and 2; \<^verbatim>\<open>None\<close> is also the result when nothing is stored.
\<close>

theorem schedule_bounds_three_elements:
  "(schedule_data st = JNull \<longrightarrow> get_schedule_bounds st = Inr None) \<and>
   (schedule_data st = JList xs \<longrightarrow>
      (get_schedule_bounds st = Inr None \<longleftrightarrow> length xs < 3) \<and>
      (\<not> length xs < 3 \<longrightarrow> get_schedule_bounds st = Inr (Some (xs ! 1, xs ! 2))))"
  by (auto simp add: get_schedule_bounds_def)

text \<open>
  A fresh coordinator stores nothing; an array of one element gives \<^verbatim>\<open>None\<close>; an
  array of three elements gives the pair.
\<close>

theorem schedule_bounds_three_elements_witness:
  "get_schedule_bounds example_coordinator = Inr None \<and>
   get_schedule_bounds (example_coordinator\<lparr> schedule_data := JList [JNum 72] \<rparr>) = Inr None \<and>
   get_schedule_bounds
     (example_coordinator\<lparr> schedule_data := JList [JNum 72, JList [JNum 75], JList [JNum 70]] \<rparr>)
     = Inr (Some (JList [JNum 75], JList [JNum 70]))"
  using schedule_bounds_three_elements [of example_coordinator "[]"]
        schedule_bounds_three_elements
          [of "example_coordinator\<lparr> schedule_data := JList [JNum 72] \<rparr>" "[JNum 72]"]
        schedule_bounds_three_elements
          [of "example_coordinator\<lparr> schedule_data := JList [JNum 72, JList [JNum 75], JList [JNum 70]] \<rparr>"
              "[JNum 72, JList [JNum 75], JList [JNum 70]]"]
  by (simp add: example_coordinator_def init_coordinator_def)

subsection \<open>C10: an empty buffer\<close>

text \<open>
  C10. When the buffer is empty, the batch upload issues no request and returns the
  collector as it was; the daily summary issues no sensor-data request and also leaves the
  collector as it was. Neither can raise: their results carry no exception.
\<close>

theorem empty_buffer_no_upload:
  assumes "pending_readings c = []"
  shows "send_sensor_batch endpoint c = ([], c) \<and>
         (\<forall>payload. SensorData payload \<notin> set (fst (send_daily_summary e c))) \<and>
         snd (snd (send_daily_summary e c)) = c"
  using assms
  by (auto simp add: send_sensor_batch_def send_daily_summary_def Let_def
      split: option.splits post_reply.splits jval.splits)

text \<open>A fresh collector.\<close>

theorem empty_buffer_no_upload_witness:
  "pending_readings (init_collector ''user-1'') = [] \<and>
   send_sensor_batch (\<lambda>payload. PostReply 200 None) (init_collector ''user-1'')
     = ([], init_collector ''user-1'') \<and>
   snd (snd (send_daily_summary (example_summary_env (PostReply 200 None) (PostReply 200 None))
     (init_collector ''user-1''))) = init_collector ''user-1''"
  using empty_buffer_no_upload [of "init_collector ''user-1''" "\<lambda>payload. PostReply 200 None"
          "example_summary_env (PostReply 200 None) (PostReply 200 None)"]
  by (simp add: init_collector_def)

end
